theory Spec2Isabelle
  imports Complex_Main "HOL-Library.Sublist" "HOL-Library.Multiset"
begin

section \<open>Python values\<close>

text \<open>
  The arguments of the \<open>Transformer\<close> methods are untyped Python objects; every method
  starts by checking their types. The values that can pass or fail those checks are
  \<open>None\<close>, booleans, integers, floats, strings, tuples and lists.

  A float is represented by the rational number it denotes. The model covers the finite
  binary64 values: \<open>flt q\<close> is the float nearest to \<open>q\<close> (what a Python literal or
  \<open>float(q)\<close> gives). Infinities, NaN, the sign of zero and overflow to infinity are not
  represented.
\<close>

datatype pyval =
    PNone
  | PBool bool
  | PInt int
  | PFloat rat
  | PStr string
  | PTuple "pyval list"
  | PList "pyval list"

subsection \<open>Rounding to binary64\<close>

text \<open>The number of digits of \<open>n\<close> in base \<open>b\<close>.\<close>

function num_digits :: "int \<Rightarrow> int \<Rightarrow> nat" where
  "num_digits b n = (if n \<le> 0 \<or> b < 2 then 0 else Suc (num_digits b (n div b)))"
  by pat_completeness auto
termination
proof (relation "measure (\<lambda>(b, n). nat n)")
  show "wf (measure (\<lambda>(b, n). nat n))"
    by simp
next
  fix b n :: int
  assume "\<not> (n \<le> 0 \<or> b < 2)"
  then have "0 < n" and "2 \<le> b"
    by simp_all
  then have "n div b < n"
    by (simp add: int_div_less_self)
  with \<open>0 < n\<close> show "((b, n div b), (b, n)) \<in> measure (\<lambda>(b, n). nat n)"
    by simp
qed

declare num_digits.simps [simp del]

definition pow_int :: "rat \<Rightarrow> int \<Rightarrow> rat" where
  "pow_int b k = (if 0 \<le> k then b ^ nat k else 1 / b ^ nat (- k))"

text \<open>\<open>floor_log b q\<close> is the integer \<open>k\<close> with \<open>b ^ k \<le> q < b ^ (k + 1)\<close>, for \<open>q > 0\<close>.\<close>

definition floor_log :: "int \<Rightarrow> rat \<Rightarrow> int" where
  "floor_log b q =
     (let (n, d) = quotient_of q;
          k = int (num_digits b n) - int (num_digits b d)
      in if pow_int (of_int b) k \<le> q then k else k - 1)"

definition round_half_even :: "rat \<Rightarrow> int" where
  "round_half_even q =
     (let f = \<lfloor>q\<rfloor>; r = q - of_int f
      in if r < 1 / 2 then f
         else if 1 / 2 < r then f + 1
         else if even f then f else f + 1)"

text \<open>
  Round to nearest, ties to even, with a 53-bit significand and the smallest exponent
  \<open>-1074\<close> of the subnormal range. This is the rounding of Python's float literals, of
  \<open>float(n)\<close> on an integer and of float arithmetic.
\<close>

definition round_double :: "rat \<Rightarrow> rat" where
  "round_double q =
     (if q = 0 then 0
      else let a = \<bar>q\<bar>;
               e = max (floor_log 2 a - 52) (- 1074);
               m = round_half_even (a / pow_int 2 e)
           in sgn q * of_int m * pow_int 2 e)"

definition flt :: "rat \<Rightarrow> pyval" where
  "flt q = PFloat (round_double q)"

subsection \<open>Numbers: values, comparison, subtraction\<close>

text \<open>
  \<open>isinstance(v, bool)\<close>, \<open>isinstance(v, int)\<close> (\<open>bool\<close> is a subclass of \<open>int\<close>),
  \<open>isinstance(v, tuple)\<close> and \<open>isinstance(v, list)\<close>.
\<close>

fun isinstance_bool :: "pyval \<Rightarrow> bool" where
  "isinstance_bool (PBool _) = True"
| "isinstance_bool _ = False"

fun isinstance_int :: "pyval \<Rightarrow> bool" where
  "isinstance_int (PBool _) = True"
| "isinstance_int (PInt _) = True"
| "isinstance_int _ = False"

fun isinstance_tuple :: "pyval \<Rightarrow> bool" where
  "isinstance_tuple (PTuple _) = True"
| "isinstance_tuple _ = False"

fun isinstance_list :: "pyval \<Rightarrow> bool" where
  "isinstance_list (PList _) = True"
| "isinstance_list _ = False"

text \<open>
  Modelled from the spec: \<open>is_number\<close> is imported from \<open>sox.core\<close>, which is not among
  the sources. The spec says that a number constraint means the "value must be of a
  numeric type" and that "non-numeric input is itself a validation failure". Python's
  numeric types are \<open>bool\<close>, \<open>int\<close> and \<open>float\<close>.
\<close>

fun is_number :: "pyval \<Rightarrow> bool" where
  "is_number (PBool _) = True"
| "is_number (PInt _) = True"
| "is_number (PFloat _) = True"
| "is_number _ = False"

text \<open>The mathematical value of a number (\<open>True\<close> is 1, \<open>False\<close> is 0).\<close>

fun num_val :: "pyval \<Rightarrow> rat" where
  "num_val (PBool b) = (if b then 1 else 0)"
| "num_val (PInt i) = of_int i"
| "num_val (PFloat q) = q"
| "num_val _ = 0"

text \<open>
  Python compares numbers of different types by their exact values. The comparisons below
  are only applied to values that have passed \<open>is_number\<close>.
\<close>

definition py_lt :: "pyval \<Rightarrow> pyval \<Rightarrow> bool" where
  "py_lt a b = (num_val a < num_val b)"

definition py_le :: "pyval \<Rightarrow> pyval \<Rightarrow> bool" where
  "py_le a b = (num_val a \<le> num_val b)"

definition py_gt :: "pyval \<Rightarrow> pyval \<Rightarrow> bool" where
  "py_gt a b = (num_val b < num_val a)"

definition py_ge :: "pyval \<Rightarrow> pyval \<Rightarrow> bool" where
  "py_ge a b = (num_val b \<le> num_val a)"

text \<open>
  \<open>a == b\<close>: numbers are equal when their values are, whatever their types; a number never
  equals a value of another kind; other values are compared structurally.
\<close>

definition py_eq :: "pyval \<Rightarrow> pyval \<Rightarrow> bool" where
  "py_eq a b =
     (if is_number a \<and> is_number b then num_val a = num_val b
      else a = b)"

text \<open>\<open>v in xs\<close> for a list \<open>xs\<close>.\<close>

definition py_in :: "pyval \<Rightarrow> pyval list \<Rightarrow> bool" where
  "py_in v xs = list_ex (py_eq v) xs"

text \<open>
  \<open>a - b\<close> on numbers: exact on integers (booleans count as integers); as soon as one
  operand is a float the other is converted to float and the difference is rounded.
\<close>

fun is_float :: "pyval \<Rightarrow> bool" where
  "is_float (PFloat _) = True"
| "is_float _ = False"

fun to_float :: "pyval \<Rightarrow> rat" where
  "to_float (PFloat q) = q"
| "to_float v = round_double (num_val v)"

definition py_sub :: "pyval \<Rightarrow> pyval \<Rightarrow> pyval" where
  "py_sub a b =
     (if is_float a \<or> is_float b
      then PFloat (round_double (to_float a - to_float b))
      else PInt (\<lfloor>num_val a\<rfloor> - \<lfloor>num_val b\<rfloor>))"

text \<open>Truth value of an object, as \<open>if v:\<close> tests it.\<close>

fun py_truth :: "pyval \<Rightarrow> bool" where
  "py_truth PNone = False"
| "py_truth (PBool b) = b"
| "py_truth (PInt i) = (i \<noteq> 0)"
| "py_truth (PFloat q) = (q \<noteq> 0)"
| "py_truth (PStr s) = (s \<noteq> [])"
| "py_truth (PTuple xs) = (xs \<noteq> [])"
| "py_truth (PList xs) = (xs \<noteq> [])"

text \<open>\<open>len(v)\<close> and \<open>v[i]\<close> on a tuple or a list.\<close>

fun py_len :: "pyval \<Rightarrow> nat" where
  "py_len (PTuple xs) = length xs"
| "py_len (PList xs) = length xs"
| "py_len (PStr s) = length s"
| "py_len _ = 0"

text \<open>
  Every subscript in the modelled code is \<open>p[0]\<close> or \<open>p[1]\<close> on a \<open>p\<close> that has already
  passed \<open>len(p) != 2\<close>, so the \<open>IndexError\<close> of an index out of range is never raised
  there; the last equation stands for it.
\<close>

fun py_getitem :: "pyval \<Rightarrow> nat \<Rightarrow> pyval" where
  "py_getitem (PTuple xs) i = (if i < length xs then xs ! i else PNone)"
| "py_getitem (PList xs) i = (if i < length xs then xs ! i else PNone)"
| "py_getitem _ i = PNone"

subsection \<open>Formatting\<close>

definition digit_char :: "int \<Rightarrow> char" where
  "digit_char d = ''0123456789'' ! nat (d mod 10)"

text \<open>The decimal digits of a natural number, given as an \<open>int\<close>.\<close>

function show_nat :: "int \<Rightarrow> string" where
  "show_nat n = (if n < 10 then [digit_char n] else show_nat (n div 10) @ [digit_char n])"
  by pat_completeness auto
termination
  by (relation "measure nat") auto

declare show_nat.simps [simp del]

definition show_int :: "int \<Rightarrow> string" where
  "show_int i = (if i < 0 then CHR ''-'' # show_nat (- i) else show_nat i)"

text \<open>
  In Python 3, \<open>str\<close> of a float is its \<open>repr\<close>: the shortest decimal digit string that
  rounds back to the float, and among the strings of that length the nearest one. \<open>digits_at x n\<close> looks
  for such a string with \<open>n\<close> significant digits, as a pair \<open>(c, k)\<close> that stands for
  \<open>c * 10 ^ k\<close>.
\<close>

definition digits_at :: "rat \<Rightarrow> nat \<Rightarrow> (int \<times> int) option" where
  "digits_at x n =
     (let k = floor_log 10 x - (int n - 1);
          lo = \<lfloor>x / pow_int 10 k\<rfloor>;
          hi = lo + 1;
          ok_lo = (round_double (of_int lo * pow_int 10 k) = x);
          ok_hi = (round_double (of_int hi * pow_int 10 k) = x);
          d_lo = x - of_int lo * pow_int 10 k;
          d_hi = of_int hi * pow_int 10 k - x
      in if ok_lo \<and> ok_hi then
           (if d_lo < d_hi \<or> (d_lo = d_hi \<and> even lo) then Some (lo, k) else Some (hi, k))
         else if ok_lo then Some (lo, k)
         else if ok_hi then Some (hi, k)
         else None)"

fun shortest_digits :: "rat \<Rightarrow> nat list \<Rightarrow> int \<times> int" where
  "shortest_digits x [] =
     (let k = floor_log 10 x - 16 in (round_half_even (x / pow_int 10 k), k))"
| "shortest_digits x (n # ns) =
     (case digits_at x n of Some ck \<Rightarrow> ck | None \<Rightarrow> shortest_digits x ns)"

function strip_zeros :: "int \<Rightarrow> int \<Rightarrow> int \<times> int" where
  "strip_zeros c k =
     (if 0 < c \<and> c mod 10 = 0 then strip_zeros (c div 10) (k + 1) else (c, k))"
  by pat_completeness auto
termination
  by (relation "measure (\<lambda>(c, k). nat c)") auto

declare strip_zeros.simps [simp del]

text \<open>
  The layout of \<open>repr\<close>: \<open>decpt\<close> is the position of the decimal point relative to the start
  of the digit string. Exponent notation is used when \<open>decpt \<le> -4\<close> or \<open>decpt > 16\<close>, with
  a sign and at least two exponent digits; otherwise the digits are written with the point
  in place, and \<open>.0\<close> is added to a whole number.
\<close>

definition repr_layout :: "string \<Rightarrow> int \<Rightarrow> string" where
  "repr_layout ds decpt =
     (if decpt \<le> - 4 \<or> 16 < decpt then
        (let e = decpt - 1;
             es = show_nat \<bar>e\<bar>
         in take 1 ds @ (if length ds \<le> 1 then [] else CHR ''.'' # drop 1 ds)
            @ ''e'' @ (if e < 0 then ''-'' else ''+'')
            @ (if length es < 2 then CHR ''0'' # es else es))
      else if decpt \<le> 0 then ''0.'' @ replicate (nat (- decpt)) CHR ''0'' @ ds
      else if int (length ds) \<le> decpt then
        ds @ replicate (nat decpt - length ds) CHR ''0'' @ ''.0''
      else take (nat decpt) ds @ CHR ''.'' # drop (nat decpt) ds)"

definition float_repr :: "rat \<Rightarrow> string" where
  "float_repr q =
     (if q = 0 then ''0.0''
      else let (c, k) = shortest_digits \<bar>q\<bar> [1 ..< 18];
               (c', k') = strip_zeros c k;
               ds = show_nat c'
           in (if q < 0 then ''-'' else [])
              @ repr_layout ds (int (length ds) + k'))"

text \<open>
  \<open>'{}'.format(v)\<close> and \<open>str(v)\<close>, which agree on the values the modelled code formats:
  every formatted argument has passed \<open>is_number\<close>, an \<open>isinstance\<close> test against \<open>int\<close>
  or a membership test in a list of numbers, strings and \<open>None\<close>. The text of a tuple
  or a list is not modelled.
\<close>

fun py_format :: "pyval \<Rightarrow> string" where
  "py_format PNone = ''None''"
| "py_format (PBool b) = (if b then ''True'' else ''False'')"
| "py_format (PInt i) = show_int i"
| "py_format (PFloat q) = float_repr q"
| "py_format (PStr s) = s"
| "py_format (PTuple xs) = []"
| "py_format (PList xs) = []"

text \<open>\<open>sep.join(xs)\<close>.\<close>

fun str_join :: "string \<Rightarrow> string list \<Rightarrow> string" where
  "str_join sep [] = []"
| "str_join sep [x] = x"
| "str_join sep (x # y # ys) = x @ sep @ str_join sep (y # ys)"

section \<open>The Transformer\<close>

text \<open>
  The exceptions the class raises. \<open>SoxError\<close> is declared in \<open>sox.core\<close>; the spec calls it
  \<open>ExecutionFailure\<close>, calls the \<open>ValueError\<close> and \<open>TypeError\<close> of a rejected argument
  \<open>InvalidParameter\<close>, and calls \<open>NotImplementedError\<close> \<open>Unsupported\<close>.
\<close>

datatype exn = ValueError | TypeError | NotImplementedError | SoxError

datatype error_kind = InvalidParameter | Unsupported | ExecutionFailure

fun kind_of :: "exn \<Rightarrow> error_kind" where
  "kind_of ValueError = InvalidParameter"
| "kind_of TypeError = InvalidParameter"
| "kind_of NotImplementedError = Unsupported"
| "kind_of SoxError = ExecutionFailure"

text \<open>The attributes of a \<open>Transformer\<close> object.\<close>

record transformer =
  input_filepath :: string
  output_filepath :: string
  input_format :: "string list"
  output_format :: "string list"
  effects :: "string list"
  effects_log :: "string list"
  globals :: "string list"

text \<open>
  A method call ends by returning or by raising; in both cases the object is left in some
  state, which the outcome carries: an exception does not undo the assignments made
  before it.
\<close>

type_synonym outcome = "exn option \<times> transformer"

definition returns :: "transformer \<Rightarrow> outcome" where
  "returns self = (None, self)"

definition raises :: "exn \<Rightarrow> transformer \<Rightarrow> outcome" where
  "raises e self = (Some e, self)"

text \<open>
  What the class does outside the object: the argument lists handed to \<open>sox\<close>, one entry
  per invocation, and the messages given to \<open>logging\<close>.
\<close>

datatype log_level = INFO | WARNING

record world =
  sox_calls :: "string list list"
  logged :: "(log_level \<times> string) list"

subsection \<open>Global arguments\<close>

definition VERBOSITY_VALS :: "pyval list" where
  "VERBOSITY_VALS = [PInt 0, PInt 1, PInt 2, PInt 3, PInt 4]"

definition set_globals ::
  "pyval \<Rightarrow> pyval \<Rightarrow> pyval \<Rightarrow> pyval \<Rightarrow> pyval \<Rightarrow> transformer \<Rightarrow> outcome" where
  "set_globals dither guard multithread replay_gain verbosity self =
     (if \<not> isinstance_bool dither then raises ValueError self
      else if \<not> isinstance_bool guard then raises ValueError self
      else if \<not> isinstance_bool multithread then raises ValueError self
      else if \<not> isinstance_bool replay_gain then raises ValueError self
      else if \<not> py_in verbosity VERBOSITY_VALS then raises ValueError self
      else
        let global_args = [];
            global_args = (if \<not> py_truth dither then global_args @ [''-D''] else global_args);
            global_args = (if py_truth guard then global_args @ [''-G''] else global_args);
            global_args =
              (if py_truth multithread then global_args @ [''--multi-threaded'']
               else global_args);
            global_args =
              (if py_truth replay_gain then (global_args @ [''--replay-gain'']) @ [''track'']
               else global_args);
            global_args = global_args @ [''-V'' @ py_format verbosity]
        in returns (self\<lparr>globals := global_args\<rparr>))"

text \<open>\<open>set_globals()\<close> with the default arguments.\<close>

definition set_globals_default :: "transformer \<Rightarrow> outcome" where
  "set_globals_default =
     set_globals (PBool False) (PBool False) (PBool False) (PBool False) (PInt 2)"

subsection \<open>Construction\<close>

text \<open>
  \<open>validate_input_file\<close> and \<open>validate_output_file\<close> belong to the module \<open>file_info\<close>, which
  is not among the sources: they are parameters here, returning the exception they raise,
  if any. The exception of a constructor leaves no object behind.
\<close>

definition Transformer_init ::
  "(string \<Rightarrow> 'e option) \<Rightarrow> (string \<Rightarrow> 'e option) \<Rightarrow> string \<Rightarrow> string
     \<Rightarrow> ('e + exn) + transformer" where
  "Transformer_init validate_input_file validate_output_file inp outp =
     (case validate_input_file inp of
        Some e \<Rightarrow> Inl (Inl e)
      | None \<Rightarrow>
          (case validate_output_file outp of
             Some e \<Rightarrow> Inl (Inl e)
           | None \<Rightarrow>
               (case set_globals_default
                   \<lparr>input_filepath = inp, output_filepath = outp, input_format = [],
                    output_format = [], effects = [], effects_log = [], globals = []\<rparr> of
                  (Some e, self) \<Rightarrow> Inl (Inr e)
                | (None, self) \<Rightarrow> Inr self)))"

subsection \<open>Build\<close>

text \<open>
  \<open>sox\<close> is imported from \<open>sox.core\<close> and runs the external program: it is a parameter,
  a function from the argument list to the status it returns. The call is recorded in the
  world before its status is looked at.
\<close>

definition build_args :: "transformer \<Rightarrow> string list" where
  "build_args self =
     (let args = [];
          args = args @ globals self;
          args = args @ input_format self;
          args = args @ [input_filepath self];
          args = args @ output_format self;
          args = args @ [output_filepath self];
          args = args @ effects self
      in args)"

definition build ::
  "(string list \<Rightarrow> bool) \<Rightarrow> transformer \<Rightarrow> world \<Rightarrow> (exn + bool) \<times> transformer \<times> world" where
  "build sox self w =
     (let args = build_args self;
          w = w\<lparr>sox_calls := sox_calls w @ [args]\<rparr>;
          status = sox args
      in if status = False then (Inl SoxError, self, w)
         else
           (Inr True, self,
            w\<lparr>logged := logged w @
               [(INFO, ''Created '' @ output_filepath self @ '' with effects: ''
                       @ str_join '' '' (effects_log self))]\<rparr>))"

subsection \<open>Methods without an implementation\<close>

text \<open>
  The body of every other effect method of the class, from \<open>allpass\<close> to \<open>vol\<close>, is
  \<open>raise NotImplementedError\<close>.
\<close>

definition not_implemented :: "transformer \<Rightarrow> outcome" where
  "not_implemented self = raises NotImplementedError self"


subsection \<open>Effects\<close>

fun py_items :: "pyval \<Rightarrow> pyval list" where
  "py_items (PList xs) = xs"
| "py_items (PTuple xs) = xs"
| "py_items _ = []"

definition compand_warning :: string where
  "compand_warning =
     ''attack_time is larger than decay_time.'' @ [CHR 0x0A] @
     ''For most situations, attack_time should be shorter than '' @
     ''decay time because the human ear is more sensitive to sudden '' @
     ''loud music than sudden soft music.''"

text \<open>
  The loop over the sorted points: each point adds the text of its two coordinates to
  \<open>transfer_list\<close>.
\<close>

fun transfer_loop :: "pyval list \<Rightarrow> string list \<Rightarrow> string list" where
  "transfer_loop [] transfer_list = transfer_list"
| "transfer_loop (point # points) transfer_list =
     transfer_loop points
       (transfer_list @ [py_format (py_getitem point 0), py_format (py_getitem point 1)])"

text \<open>
  \<open>sorted(tf_points, key=...)\<close> is a stable sort on the first coordinates, which are
  numbers when the sort is reached. \<open>len(set([p[0] for p in tf_points]))\<close> counts the
  first coordinates up to \<open>==\<close>, that is, by value.
\<close>

definition compand ::
  "pyval \<Rightarrow> pyval \<Rightarrow> pyval \<Rightarrow> pyval \<Rightarrow> transformer \<Rightarrow> world \<Rightarrow> outcome \<times> world" where
  "compand attack_time decay_time soft_knee_db tf_points self w =
     (if \<not> is_number attack_time \<or> py_le attack_time (PInt 0) then (raises ValueError self, w)
      else if \<not> is_number decay_time \<or> py_le decay_time (PInt 0)
        then (raises ValueError self, w)
      else
        let w = (if py_gt attack_time decay_time
                 then w\<lparr>logged := logged w @ [(WARNING, compand_warning)]\<rparr> else w)
        in
          if \<not> (is_number soft_knee_db \<or> soft_knee_db = PNone)
            then (raises ValueError self, w)
          else if \<not> isinstance_list tf_points then (raises TypeError self, w)
          else if py_len tf_points = 0 then (raises ValueError self, w)
          else if list_ex (\<lambda>pair. \<not> isinstance_tuple pair) (py_items tf_points)
            then (raises ValueError self, w)
          else if list_ex (\<lambda>pair. py_len pair \<noteq> 2) (py_items tf_points)
            then (raises ValueError self, w)
          else if list_ex (\<lambda>p. \<not> (is_number (py_getitem p 0) \<and> is_number (py_getitem p 1)))
                    (py_items tf_points)
            then (raises ValueError self, w)
          else if list_ex (\<lambda>p. py_gt (py_getitem p 0) (PInt 0) \<or> py_gt (py_getitem p 1) (PInt 0))
                    (py_items tf_points)
            then (raises ValueError self, w)
          else if length (remdups (map (\<lambda>p. num_val (py_getitem p 0)) (py_items tf_points)))
                    < py_len tf_points
            then (raises ValueError self, w)
          else
            let tf_points = sort_key (\<lambda>tf_points. num_val (py_getitem tf_points 0))
                              (py_items tf_points);
                transfer_list = transfer_loop tf_points [];
                effect_args =
                  [''compand'', py_format attack_time @ '','' @ py_format decay_time];
                effect_args =
                  (if soft_knee_db \<noteq> PNone
                   then effect_args @
                          [py_format soft_knee_db @ '':'' @ str_join '','' transfer_list]
                   else effect_args @ [str_join '','' transfer_list])
            in (returns (self\<lparr>effects := effects self @ effect_args,
                               effects_log := effects_log self @ [''compand'']\<rparr>), w))"

definition rate :: "pyval \<Rightarrow> pyval \<Rightarrow> transformer \<Rightarrow> outcome" where
  "rate samplerate quality self =
     (let quality_vals = [PStr ''q'', PStr ''l'', PStr ''m'', PStr ''h'', PStr ''v'']
      in if \<not> is_number samplerate \<or> py_le samplerate (PInt 0) then raises ValueError self
         else if \<not> py_in quality quality_vals then raises ValueError self
         else
           let effect_args = [''rate'', ''-'' @ py_format quality, py_format samplerate]
           in returns (self\<lparr>effects := effects self @ effect_args,
                             effects_log := effects_log self @ [''rate'']\<rparr>))"

text \<open>
  \<open>convert\<close> checks and applies its arguments one after the other: the tokens of
  \<open>bitdepth\<close> are appended before \<open>channels\<close> is looked at, and those of \<open>channels\<close> before
  \<open>samplerate\<close> is. \<open>self.rate(samplerate)\<close> is called with the default quality \<open>'h'\<close>.
\<close>

definition convert :: "pyval \<Rightarrow> pyval \<Rightarrow> pyval \<Rightarrow> transformer \<Rightarrow> outcome" where
  "convert samplerate channels bitdepth self =
     (let bitdepths = [PInt 8, PInt 16, PInt 24, PInt 32, PInt 64]
      in if bitdepth \<noteq> PNone \<and> \<not> py_in bitdepth bitdepths then raises ValueError self
         else
           let self = (if bitdepth \<noteq> PNone
                       then self\<lparr>output_format :=
                                   output_format self @ [''-b'', py_format bitdepth]\<rparr>
                       else self)
           in if channels \<noteq> PNone \<and> (\<not> isinstance_int channels \<or> py_le channels (PInt 0))
                then raises ValueError self
              else
                let self = (if channels \<noteq> PNone
                            then self\<lparr>output_format :=
                                        output_format self @ [''-c'', py_format channels]\<rparr>
                            else self)
                in if samplerate \<noteq> PNone
                     then (if \<not> is_number samplerate \<or> py_le samplerate (PInt 0)
                           then raises ValueError self
                           else rate samplerate (PStr ''h'') self)
                   else returns self)"

definition fade :: "pyval \<Rightarrow> pyval \<Rightarrow> pyval \<Rightarrow> transformer \<Rightarrow> outcome" where
  "fade fade_in_len fade_out_len fade_shape self =
     (let fade_shapes = [PStr ''q'', PStr ''h'', PStr ''t'', PStr ''l'', PStr ''p'']
      in if \<not> py_in fade_shape fade_shapes then raises ValueError self
         else if \<not> is_number fade_in_len \<or> py_lt fade_in_len (PInt 0)
           then raises ValueError self
         else if \<not> is_number fade_out_len \<or> py_lt fade_out_len (PInt 0)
           then raises ValueError self
         else
           let effect_args = [];
               effect_args =
                 (if py_gt fade_in_len (PInt 0)
                  then effect_args @ [''fade'', py_format fade_shape, py_format fade_in_len]
                  else effect_args);
               effect_args =
                 (if py_gt fade_out_len (PInt 0)
                  then effect_args @
                         [''reverse'', ''fade'', py_format fade_shape,
                          py_format fade_out_len, ''reverse'']
                  else effect_args)
           in if 0 < length effect_args
                then returns (self\<lparr>effects := effects self @ effect_args,
                                   effects_log := effects_log self @ [''fade'']\<rparr>)
              else returns self)"


text \<open>The argument \<open>normalize\<close> is written \<open>normalize'\<close>.\<close>

definition gain :: "pyval \<Rightarrow> pyval \<Rightarrow> pyval \<Rightarrow> pyval \<Rightarrow> transformer \<Rightarrow> outcome" where
  "gain gain_db normalize' limiter balance self =
     (if \<not> is_number gain_db then raises ValueError self
      else if \<not> isinstance_bool normalize' then raises ValueError self
      else if \<not> isinstance_bool limiter then raises ValueError self
      else if \<not> py_in balance [PNone, PStr ''e'', PStr ''B'', PStr ''b'']
        then raises ValueError self
      else
        let effect_args = [''gain''];
            effect_args =
              (if balance \<noteq> PNone then effect_args @ [''-'' @ py_format balance]
               else effect_args);
            effect_args = (if py_truth normalize' then effect_args @ [''-n''] else effect_args);
            effect_args = (if py_truth limiter then effect_args @ [''-l''] else effect_args);
            effect_args = effect_args @ [py_format gain_db]
        in returns (self\<lparr>effects := effects self @ effect_args,
                          effects_log := effects_log self @ [''gain'']\<rparr>))"

definition loudness :: "pyval \<Rightarrow> pyval \<Rightarrow> transformer \<Rightarrow> outcome" where
  "loudness gain_db reference_level self =
     (if \<not> is_number gain_db then raises ValueError self
      else if \<not> is_number reference_level then raises ValueError self
      else if py_gt reference_level (PInt 75) \<or> py_lt reference_level (PInt 50)
        then raises ValueError self
      else
        let effect_args = [''loudness'', py_format gain_db, py_format reference_level]
        in returns (self\<lparr>effects := effects self @ effect_args,
                          effects_log := effects_log self @ [''loudness'']\<rparr>))"

text \<open>The method \<open>norm\<close>.\<close>

definition norm_effect :: "pyval \<Rightarrow> transformer \<Rightarrow> outcome" where
  "norm_effect db_level self =
     (if \<not> is_number db_level then raises ValueError self
      else
        let effect_args = [''norm'', py_format db_level]
        in returns (self\<lparr>effects := effects self @ effect_args,
                          effects_log := effects_log self @ [''norm'']\<rparr>))"

definition pad :: "pyval \<Rightarrow> pyval \<Rightarrow> transformer \<Rightarrow> outcome" where
  "pad start_duration end_duration self =
     (if \<not> is_number start_duration \<or> py_lt start_duration (PInt 0)
        then raises ValueError self
      else if \<not> is_number end_duration \<or> py_lt end_duration (PInt 0)
        then raises ValueError self
      else
        let effect_args = [''pad'', py_format start_duration, py_format end_duration]
        in returns (self\<lparr>effects := effects self @ effect_args,
                          effects_log := effects_log self @ [''pad'']\<rparr>))"

definition silence :: "pyval \<Rightarrow> pyval \<Rightarrow> pyval \<Rightarrow> pyval \<Rightarrow> transformer \<Rightarrow> outcome" where
  "silence location silence_threshold min_silence_duration buffer_around_silence self =
     (if \<not> py_in location [PInt (- 1), PInt 0, PInt 1] then raises ValueError self
      else if \<not> is_number silence_threshold \<or> py_lt silence_threshold (PInt 0)
        then raises ValueError self
      else if py_ge silence_threshold (PInt 100) then raises ValueError self
      else if \<not> is_number min_silence_duration \<or> py_le min_silence_duration (PInt 0)
        then raises ValueError self
      else if \<not> isinstance_bool buffer_around_silence then raises ValueError self
      else
        let effect_args = [];
            effect_args =
              (if py_eq location (PInt (- 1)) then effect_args @ [''reverse'']
               else effect_args);
            effect_args =
              (if py_truth buffer_around_silence then effect_args @ [''silence'', ''-l'']
               else effect_args @ [''silence'']);
            effect_args =
              effect_args @
                [''1'', py_format min_silence_duration, py_format silence_threshold @ ''%''];
            effect_args =
              (if py_eq location (PInt 0)
               then effect_args @
                      [''-1'', py_format min_silence_duration,
                       py_format silence_threshold @ ''%'']
               else effect_args);
            effect_args =
              (if py_eq location (PInt (- 1)) then effect_args @ [''reverse'']
               else effect_args)
        in returns (self\<lparr>effects := effects self @ effect_args,
                          effects_log := effects_log self @ [''silence'']\<rparr>))"

definition trim :: "pyval \<Rightarrow> pyval \<Rightarrow> transformer \<Rightarrow> outcome" where
  "trim start_time end_time self =
     (if \<not> is_number start_time \<or> py_lt start_time (PInt 0) then raises ValueError self
      else if \<not> is_number end_time \<or> py_lt end_time (PInt 0) then raises ValueError self
      else if py_ge start_time end_time then raises ValueError self
      else
        let effect_args =
              [''trim'', py_format start_time, py_format (py_sub end_time start_time)]
        in returns (self\<lparr>effects := effects self @ effect_args,
                          effects_log := effects_log self @ [''trim'']\<rparr>))"

subsection \<open>Default arguments\<close>

definition compand_default :: "transformer \<Rightarrow> world \<Rightarrow> outcome \<times> world" where
  "compand_default =
     compand (flt (3 / 10)) (flt (8 / 10)) (flt 6)
       (PList [PTuple [PInt (- 70), PInt (- 70)], PTuple [PInt (- 60), PInt (- 20)],
               PTuple [PInt 0, PInt 0]])"

subsection \<open>Sequences of calls\<close>

text \<open>
  A caller may invoke any method with any arguments, and may go on after an exception.
  \<open>run\<close> performs a sequence of calls on one object, keeping the object as each call left
  it.
\<close>

datatype call =
    Set_globals pyval pyval pyval pyval pyval
  | Build
  | Compand pyval pyval pyval pyval
  | Convert pyval pyval pyval
  | Fade pyval pyval pyval
  | Gain pyval pyval pyval pyval
  | Loudness pyval pyval
  | Norm pyval
  | Pad pyval pyval
  | Rate pyval pyval
  | Silence pyval pyval pyval pyval
  | Trim pyval pyval
  | Not_implemented

fun apply_call ::
  "(string list \<Rightarrow> bool) \<Rightarrow> call \<Rightarrow> transformer \<times> world \<Rightarrow> exn option \<times> transformer \<times> world"
where
  "apply_call sox (Set_globals d g m r v) (self, w) =
     (case set_globals d g m r v self of (e, self') \<Rightarrow> (e, self', w))"
| "apply_call sox Build (self, w) =
     (case build sox self w of
        (Inl e, self', w') \<Rightarrow> (Some e, self', w')
      | (Inr _, self', w') \<Rightarrow> (None, self', w'))"
| "apply_call sox (Compand a d k p) (self, w) =
     (case compand a d k p self w of ((e, self'), w') \<Rightarrow> (e, self', w'))"
| "apply_call sox (Convert s c b) (self, w) =
     (case convert s c b self of (e, self') \<Rightarrow> (e, self', w))"
| "apply_call sox (Fade i o' s) (self, w) =
     (case fade i o' s self of (e, self') \<Rightarrow> (e, self', w))"
| "apply_call sox (Gain g n l b) (self, w) =
     (case gain g n l b self of (e, self') \<Rightarrow> (e, self', w))"
| "apply_call sox (Loudness g r) (self, w) =
     (case loudness g r self of (e, self') \<Rightarrow> (e, self', w))"
| "apply_call sox (Norm d) (self, w) =
     (case norm_effect d self of (e, self') \<Rightarrow> (e, self', w))"
| "apply_call sox (Pad s e') (self, w) =
     (case pad s e' self of (e, self') \<Rightarrow> (e, self', w))"
| "apply_call sox (Rate s q) (self, w) =
     (case rate s q self of (e, self') \<Rightarrow> (e, self', w))"
| "apply_call sox (Silence l t d b) (self, w) =
     (case silence l t d b self of (e, self') \<Rightarrow> (e, self', w))"
| "apply_call sox (Trim s e') (self, w) =
     (case trim s e' self of (e, self') \<Rightarrow> (e, self', w))"
| "apply_call sox Not_implemented (self, w) =
     (case not_implemented self of (e, self') \<Rightarrow> (e, self', w))"

fun run :: "(string list \<Rightarrow> bool) \<Rightarrow> call list \<Rightarrow> transformer \<times> world \<Rightarrow> transformer \<times> world"
where
  "run sox [] st = st"
| "run sox (c # cs) st = run sox cs (snd (apply_call sox c st))"


subsection \<open>An example object\<close>

text \<open>
  The object that \<open>Transformer('in.wav', 'out.wav')\<close> constructs when both paths pass their
  validation, and a world in which nothing has happened yet.
\<close>

definition fresh :: transformer where
  "fresh =
     \<lparr>input_filepath = ''in.wav'', output_filepath = ''out.wav'', input_format = [],
      output_format = [], effects = [], effects_log = [], globals = [''-D'', ''-V2'']\<rparr>"

definition quiet :: world where
  "quiet = \<lparr>sox_calls = [], logged = []\<rparr>"


section \<open>Properties\<close>

subsection \<open>Auxiliary facts\<close>

lemmas cmp_defs = py_lt_def py_le_def py_gt_def py_ge_def

lemmas out_defs = returns_def raises_def

lemma show_int_small:
  "show_int 0 = ''0''" "show_int 1 = ''1''" "show_int 2 = ''2''" "show_int 3 = ''3''"
  "show_int 4 = ''4''"
  by code_simp+

lemma set_globals_ok:
  assumes "v \<in> {0, 1, 2, 3, 4}"
  shows "set_globals (PBool d) (PBool g) (PBool m) (PBool r) (PInt v) self =
     (None, self\<lparr>globals :=
        (if d then [] else [''-D'']) @ (if g then [''-G''] else []) @
        (if m then [''--multi-threaded''] else []) @
        (if r then [''--replay-gain'', ''track''] else []) @
        [''-V'' @ [''01234'' ! nat v]]\<rparr>)"
proof -
  have in_vals: "py_in (PInt v) VERBOSITY_VALS"
    using assms by (auto simp add: VERBOSITY_VALS_def py_in_def py_eq_def)
  have digit: "show_int v = [''01234'' ! nat v]"
    using assms by (auto simp add: show_int_small)
  show ?thesis
    by (simp add: set_globals_def in_vals digit out_defs)
qed

lemma set_globals_default_ok:
  "set_globals_default self = (None, self\<lparr>globals := [''-D'', ''-V2'']\<rparr>)"
  by (simp add: set_globals_default_def set_globals_def VERBOSITY_VALS_def py_in_def
      py_eq_def out_defs show_int_small)

text \<open>The example object is what the constructor returns.\<close>

lemma Transformer_init_fresh:
  "Transformer_init (\<lambda>_. None) (\<lambda>_. None) ''in.wav'' ''out.wav'' = Inr fresh"
  by (simp add: Transformer_init_def set_globals_default_ok fresh_def)

subsection \<open>Build\<close>

text \<open>
  Claim C2. For every object, \<open>build\<close> assembles the argument list
  \<open>globals @ input_format @ [input_filepath] @ output_format @ [output_filepath] @ effects\<close>
  in that order and hands it to \<open>sox\<close> exactly once: the record of invocations grows by
  exactly that one list. When \<open>sox\<close> reports success \<open>build\<close> returns \<open>True\<close>; when it reports
  failure \<open>build\<close> raises \<open>SoxError\<close>, the spec's \<open>ExecutionFailure\<close>, with no second
  invocation. In both cases the object is returned as it was.
\<close>

theorem build_spec:
  "build sox self w =
     (let args = globals self @ input_format self @ [input_filepath self]
                 @ output_format self @ [output_filepath self] @ effects self
      in if sox args
         then (Inr True, self,
               w\<lparr>sox_calls := sox_calls w @ [args],
                 logged := logged w @
                   [(INFO, ''Created '' @ output_filepath self @ '' with effects: ''
                           @ str_join '' '' (effects_log self))]\<rparr>)
         else (Inl SoxError, self, w\<lparr>sox_calls := sox_calls w @ [args]\<rparr>))
   \<and> kind_of SoxError = ExecutionFailure"
  by (simp add: build_def build_args_def Let_def)

subsection \<open>Global arguments\<close>

text \<open>
  Claim C3. For all booleans \<open>dither\<close>, \<open>guard\<close>, \<open>multithread\<close>, \<open>replay_gain\<close> and every
  verbosity among 0, 1, 2, 3, 4, \<open>set_globals\<close> succeeds and sets \<open>globals\<close> to: \<open>-D\<close> iff
  \<open>dither\<close> is false, then \<open>-G\<close> iff \<open>guard\<close>, then \<open>--multi-threaded\<close> iff \<open>multithread\<close>, then
  \<open>--replay-gain\<close>, \<open>track\<close> iff \<open>replay_gain\<close>, and last \<open>-V\<close> followed by the digit of the
  verbosity. The new list replaces the old one, whatever it was. With the default
  arguments the list is \<open>-D\<close>, \<open>-V2\<close>.
\<close>

theorem set_globals_spec:
  "(v \<in> {0, 1, 2, 3, 4} \<longrightarrow>
      set_globals (PBool dither) (PBool guard) (PBool multithread) (PBool replay_gain)
          (PInt v) self =
        (None, self\<lparr>globals :=
           (if dither then [] else [''-D'']) @
           (if guard then [''-G''] else []) @
           (if multithread then [''--multi-threaded''] else []) @
           (if replay_gain then [''--replay-gain'', ''track''] else []) @
           [''-V'' @ [''01234'' ! nat v]]\<rparr>))
   \<and> set_globals_default self = (None, self\<lparr>globals := [''-D'', ''-V2'']\<rparr>)"
  using set_globals_ok [of v dither guard multithread replay_gain self]
    set_globals_default_ok [of self]
  by blast

theorem set_globals_spec_witness:
  "(3::int) \<in> {0, 1, 2, 3, 4} \<and>
   set_globals (PBool True) (PBool True) (PBool False) (PBool True) (PInt 3)
       (fresh\<lparr>globals := [''-D'', ''-V2'', ''-G'']\<rparr>) =
     (None, fresh\<lparr>globals := [''-G'', ''--replay-gain'', ''track'', ''-V3'']\<rparr>)"
  using set_globals_spec
    [of 3 True True False True "fresh\<lparr>globals := [''-D'', ''-V2'', ''-G'']\<rparr>"]
  by simp


subsection \<open>Facts about the effects\<close>

lemma is_number_not_None: "is_number v \<Longrightarrow> v \<noteq> PNone"
  by auto



lemma float_texts:
  "py_format (flt 1) = ''1.0''"
  "py_format (py_sub (flt 3) (flt 1)) = ''2.0''"
  "py_format (flt (1 / 10)) = ''0.1''"
  "py_format (flt (3 / 10)) = ''0.3''"
  "py_format (flt (8 / 10)) = ''0.8''"
  "py_format (flt 6) = ''6.0''"
  "py_format (flt (99999 / 1000)) = ''99.999''"
  by code_simp+

lemma float_values:
  "num_val (flt 1) = 1" "num_val (flt 3) = 3" "num_val (flt 0) = 0"
  "is_number (flt q)"
  by (code_simp, code_simp, code_simp, simp add: flt_def)

lemma float_bounds:
  "0 < num_val (flt (1 / 10))" "num_val (flt (1 / 10)) < 100"
  "0 < num_val (flt (99999 / 1000))" "num_val (flt (99999 / 1000)) < 100"
  "0 < num_val (flt (3 / 10))" "0 < num_val (flt (8 / 10))"
  by code_simp+

lemma fade_zero:
  assumes "shape \<in> {''q'', ''h'', ''t'', ''l'', ''p''}"
    "is_number a" "is_number b" "num_val a = 0" "num_val b = 0"
  shows "fade a b (PStr shape) self = (None, self)"
  using assms by (auto simp add: fade_def cmp_defs out_defs py_in_def py_eq_def)

lemma convert_rate:
  assumes "is_number r" "0 < num_val r"
  shows "convert r PNone PNone self =
     (None, self\<lparr>effects := effects self @ [''rate'', ''-h'', py_format r],
                 effects_log := effects_log self @ [''rate'']\<rparr>)"
    and "convert r PNone PNone self = rate r (PStr ''h'') self"
  using assms
  by (auto simp add: convert_def rate_def cmp_defs out_defs py_in_def py_eq_def)

lemma silence_ok:
  assumes "is_number loc" "num_val loc \<in> {- 1, 0, 1}"
    "is_number thr" "0 \<le> num_val thr" "num_val thr < 100"
    "is_number dur" "0 < num_val dur"
  shows "silence loc thr dur (PBool buf) self =
    (None, self\<lparr>effects := effects self @
       (if num_val loc = - 1 then [''reverse''] else []) @
       (if buf then [''silence'', ''-l''] else [''silence'']) @
       [''1'', py_format dur, py_format thr @ ''%''] @
       (if num_val loc = 0 then [''-1'', py_format dur, py_format thr @ ''%''] else []) @
       (if num_val loc = - 1 then [''reverse''] else []),
       effects_log := effects_log self @ [''silence'']\<rparr>)"
  using assms by (auto simp add: silence_def cmp_defs out_defs py_in_def py_eq_def)


subsection \<open>Trim\<close>



subsection \<open>Fade\<close>

text \<open>
  Claim C8. For every shape among \<open>q\<close>, \<open>h\<close>, \<open>t\<close>, \<open>l\<close>, \<open>p\<close>, a call of \<open>fade\<close> whose two
  lengths are numbers equal to zero returns without an exception and leaves the whole
  object unchanged: no token and no log entry is appended.
\<close>

theorem fade_zero_noop:
  "shape \<in> {''q'', ''h'', ''t'', ''l'', ''p''} \<and> is_number fade_in_len \<and> is_number fade_out_len
     \<and> num_val fade_in_len = 0 \<and> num_val fade_out_len = 0 \<longrightarrow>
   fade fade_in_len fade_out_len (PStr shape) self = (None, self)"
  using fade_zero [of shape fade_in_len fade_out_len self] by blast

theorem fade_zero_noop_witness:
  "''t'' \<in> {''q'', ''h'', ''t'', ''l'', ''p''} \<and> is_number (flt 0) \<and> is_number (PInt 0)
     \<and> num_val (flt 0) = 0 \<and> num_val (PInt 0) = 0
     \<and> fade (flt 0) (PInt 0) (PStr ''t'') fresh = (None, fresh)"
  using fade_zero_noop [of "''t''" "flt 0" "PInt 0" fresh]
  by (simp add: float_values)

subsection \<open>Convert with a sample rate\<close>

text \<open>
  Claim C10. For every number \<open>r > 0\<close>, \<open>convert(samplerate=r)\<close> is the call \<open>rate(r)\<close> with the
  default quality \<open>h\<close>: it appends exactly \<open>rate\<close>, \<open>-h\<close> and the text of \<open>r\<close> to \<open>effects\<close>,
  and the name \<open>rate\<close>, not \<open>convert\<close>, to \<open>effects_log\<close>.
\<close>

theorem convert_samplerate_is_rate:
  "is_number r \<and> 0 < num_val r \<longrightarrow>
     convert r PNone PNone self = rate r (PStr ''h'') self
     \<and> convert r PNone PNone self =
         (None, self\<lparr>effects := effects self @ [''rate'', ''-h'', py_format r],
                     effects_log := effects_log self @ [''rate'']\<rparr>)"
  using convert_rate [of r self] by blast

theorem convert_samplerate_is_rate_witness:
  "convert (PInt 44100) PNone PNone fresh =
     (None, fresh\<lparr>effects := [''rate'', ''-h'', ''44100''], effects_log := [''rate'']\<rparr>)"
proof -
  have t: "py_format (PInt 44100) = ''44100''"
    by code_simp
  have "convert (PInt 44100) PNone PNone fresh =
      (None, fresh\<lparr>effects := effects fresh @ [''rate'', ''-h'', py_format (PInt 44100)],
                   effects_log := effects_log fresh @ [''rate'']\<rparr>)"
    by (rule conjunct2 [OF mp [OF convert_samplerate_is_rate [of "PInt 44100" fresh]]]) simp
  then show ?thesis
    unfolding t by (simp add: fresh_def)
qed

subsection \<open>Silence\<close>

text \<open>
  Claim C6. For every valid call of \<open>silence\<close> (a location equal to -1, 0 or 1, a threshold
  \<open>t\<close> with \<open>0 \<le> t < 100\<close>, a duration \<open>d > 0\<close>, a boolean buffer flag) the appended tokens are:
  \<open>reverse\<close> iff the location is -1; then \<open>silence\<close>, \<open>-l\<close> if the flag is set, else \<open>silence\<close>;
  then \<open>1\<close>, the text of \<open>d\<close>, the text of \<open>t\<close> followed by \<open>%\<close>; then \<open>-1\<close> and the same two
  texts again iff the location is 0; then \<open>reverse\<close> iff the location is -1. The name
  \<open>silence\<close> is appended to \<open>effects_log\<close>. On the example object,
  \<open>silence(location=0, silence_threshold=0.1, min_silence_duration=0.1)\<close> gives exactly
  \<open>silence\<close>, \<open>1\<close>, \<open>0.1\<close>, \<open>0.1%\<close>, \<open>-1\<close>, \<open>0.1\<close>, \<open>0.1%\<close>.
\<close>

theorem silence_tokens:
  "(is_number location \<and> num_val location \<in> {- 1, 0, 1}
      \<and> is_number silence_threshold \<and> 0 \<le> num_val silence_threshold
      \<and> num_val silence_threshold < 100
      \<and> is_number min_silence_duration \<and> 0 < num_val min_silence_duration \<longrightarrow>
    silence location silence_threshold min_silence_duration (PBool buffer_around_silence) self =
      (None, self\<lparr>effects := effects self @
         (if num_val location = - 1 then [''reverse''] else []) @
         (if buffer_around_silence then [''silence'', ''-l''] else [''silence'']) @
         [''1'', py_format min_silence_duration, py_format silence_threshold @ ''%''] @
         (if num_val location = 0
          then [''-1'', py_format min_silence_duration, py_format silence_threshold @ ''%'']
          else []) @
         (if num_val location = - 1 then [''reverse''] else []),
         effects_log := effects_log self @ [''silence'']\<rparr>))
   \<and> silence (PInt 0) (flt (1 / 10)) (flt (1 / 10)) (PBool False) fresh =
       (None, fresh\<lparr>effects := [''silence'', ''1'', ''0.1'', ''0.1%'', ''-1'', ''0.1'', ''0.1%''],
                    effects_log := [''silence'']\<rparr>)"
proof -
  have "silence (PInt 0) (flt (1 / 10)) (flt (1 / 10)) (PBool False) fresh =
      (None, fresh\<lparr>effects := effects fresh @
           [''silence'', ''1'', ''0.1'', ''0.1%'', ''-1'', ''0.1'', ''0.1%''],
         effects_log := effects_log fresh @ [''silence'']\<rparr>)"
    using silence_ok [of "PInt 0" "flt (1 / 10)" "flt (1 / 10)" False fresh] float_bounds
    by (simp add: float_texts float_values)
  then have "silence (PInt 0) (flt (1 / 10)) (flt (1 / 10)) (PBool False) fresh =
      (None, fresh\<lparr>effects := [''silence'', ''1'', ''0.1'', ''0.1%'', ''-1'', ''0.1'', ''0.1%''],
                   effects_log := [''silence'']\<rparr>)"
    by (simp add: fresh_def)
  then show ?thesis
    using silence_ok [of location silence_threshold min_silence_duration
        buffer_around_silence self]
    by blast
qed

theorem silence_tokens_witness:
  "silence (PInt (- 1)) (PInt 5) (flt (1 / 10)) (PBool True) fresh =
     (None, fresh\<lparr>effects := [''reverse'', ''silence'', ''-l'', ''1'', ''0.1'', ''5%'', ''reverse''],
                  effects_log := [''silence'']\<rparr>)"
proof -
  have t: "py_format (PInt 5) = ''5''"
    by code_simp
  have "silence (PInt (- 1)) (PInt 5) (flt (1 / 10)) (PBool True) fresh =
      (None, fresh\<lparr>effects := effects fresh @
           [''reverse'', ''silence'', ''-l'', ''1'', py_format (flt (1 / 10)),
            py_format (PInt 5) @ ''%'', ''reverse''],
         effects_log := effects_log fresh @ [''silence'']\<rparr>)"
    using silence_tokens [of "PInt (- 1)" "PInt 5" "flt (1 / 10)" True fresh] float_bounds
    by (simp add: float_values)
  then show ?thesis
    unfolding t float_texts by (simp add: fresh_def)
qed




subsection \<open>Compand\<close>

lemma transfer_loop_eq:
  "transfer_loop ps acc =
     acc @ concat (map (\<lambda>p. [py_format (py_getitem p 0), py_format (py_getitem p 1)]) ps)"
  by (induction ps arbitrary: acc) simp_all

lemma compand_ok:
  assumes a: "is_number a" "0 < num_val a" and d: "is_number d" "0 < num_val d"
    and k: "is_number k \<or> k = PNone"
    and ne: "ps \<noteq> []"
    and pts: "\<forall>p\<in>set ps. \<exists>x y. p = PTuple [x, y] \<and> is_number x \<and> is_number y
                \<and> num_val x \<le> 0 \<and> num_val y \<le> 0"
    and dist: "distinct (map (\<lambda>p. num_val (py_getitem p 0)) ps)"
  shows "fst (compand a d k (PList ps) self w) =
     (None, self\<lparr>effects := effects self @
        [''compand'', py_format a @ '','' @ py_format d,
         (if k = PNone then [] else py_format k @ '':'') @
         str_join '',''
           (concat (map (\<lambda>p. [py_format (py_getitem p 0), py_format (py_getitem p 1)])
              (sort_key (\<lambda>p. num_val (py_getitem p 0)) ps)))],
        effects_log := effects_log self @ [''compand'']\<rparr>)"
proof -
  have c1: "\<not> list_ex (\<lambda>pair. \<not> isinstance_tuple pair) ps"
    using pts by (auto simp add: list_ex_iff)
  have c2: "\<not> list_ex (\<lambda>pair. py_len pair \<noteq> 2) ps"
    using pts by (auto simp add: list_ex_iff)
  have c3: "\<not> list_ex (\<lambda>p. \<not> (is_number (py_getitem p 0) \<and> is_number (py_getitem p 1))) ps"
    using pts by (auto simp add: list_ex_iff)
  have c4: "\<not> list_ex (\<lambda>p. py_gt (py_getitem p 0) (PInt 0) \<or> py_gt (py_getitem p 1) (PInt 0)) ps"
    using pts by (fastforce simp add: list_ex_iff py_gt_def)
  have c5: "\<not> length (remdups (map (\<lambda>p. num_val (py_getitem p 0)) ps)) < length ps"
    using dist by (simp add: distinct_remdups_id)
  have c0: "\<not> (\<not> is_number a \<or> py_le a (PInt 0))" "\<not> (\<not> is_number d \<or> py_le d (PInt 0))"
    using a d by (simp_all add: py_le_def)
  show ?thesis
    using k ne c0 c1 c2 c3 c4 c5
    by (auto simp add: compand_def out_defs Let_def transfer_loop_eq)
qed

lemma remdups_shorter:
  assumes "\<not> distinct xs"
  shows "length (remdups xs) < length xs"
proof (rule le_neq_implies_less)
  show "length (remdups xs) \<le> length xs"
    by (rule length_remdups_leq)
  show "length (remdups xs) \<noteq> length xs"
    using assms by (simp add: length_remdups_eq remdups_id_iff_distinct)
qed

lemma compand_duplicate:
  assumes "\<not> distinct (map (\<lambda>p. num_val (py_getitem p 0)) ps)"
  shows "fst (compand a d k (PList ps) self w) = (Some ValueError, self)"
proof -
  have "length (remdups (map (\<lambda>p. num_val (py_getitem p 0)) ps)) < length ps"
    using remdups_shorter [OF assms] by simp
  then show ?thesis
    by (simp add: compand_def out_defs Let_def)
qed

lemma sort_key_strict:
  assumes "distinct (map f ps)"
  shows "sorted_wrt (<) (map f (sort_key f ps))"
proof -
  have "mset (map f (sort_key f ps)) = mset (map f ps)"
    by simp
  then have "distinct (map f (sort_key f ps))"
    using assms by (metis mset_eq_imp_distinct_iff)
  then show ?thesis
    by (simp add: strict_sorted_iff)
qed

lemma compand_default_ok:
  "fst (compand_default self w) =
     (None, self\<lparr>effects := effects self @ [''compand'', ''0.3,0.8'', ''6.0:-70,-70,-60,-20,0,0''],
                 effects_log := effects_log self @ [''compand'']\<rparr>)"
  by code_simp

text \<open>
  Claim C4. For every valid call of \<open>compand\<close> (attack and decay times that are numbers
  greater than zero, a soft knee that is a number or \<open>None\<close>, a non-empty list of pairs of
  numbers, each at most zero, with pairwise different first coordinates) the call succeeds
  and appends exactly three tokens: \<open>compand\<close>; the texts of the attack and decay times
  joined by a comma; and the texts of the coordinates of the points, joined by commas,
  after the text of the soft knee and a colon when there is a soft knee. The points are
  taken in the order \<open>points\<close>, which is a rearrangement of the given list with strictly
  ascending first coordinates. With the default arguments the tokens are \<open>compand\<close>,
  \<open>0.3,0.8\<close>, \<open>6.0:-70,-70,-60,-20,0,0\<close>.
\<close>

theorem compand_tokens:
  "(is_number attack_time \<and> 0 < num_val attack_time
      \<and> is_number decay_time \<and> 0 < num_val decay_time
      \<and> (is_number soft_knee_db \<or> soft_knee_db = PNone)
      \<and> tf_points \<noteq> []
      \<and> (\<forall>p\<in>set tf_points. \<exists>x y. p = PTuple [x, y] \<and> is_number x \<and> is_number y
              \<and> num_val x \<le> 0 \<and> num_val y \<le> 0)
      \<and> distinct (map (\<lambda>p. num_val (py_getitem p 0)) tf_points) \<longrightarrow>
    (let points = sort_key (\<lambda>p. num_val (py_getitem p 0)) tf_points
     in mset points = mset tf_points
        \<and> sorted_wrt (<) (map (\<lambda>p. num_val (py_getitem p 0)) points)
        \<and> fst (compand attack_time decay_time soft_knee_db (PList tf_points) self w) =
            (None, self\<lparr>effects := effects self @
               [''compand'', py_format attack_time @ '','' @ py_format decay_time,
                (if soft_knee_db = PNone then [] else py_format soft_knee_db @ '':'') @
                str_join '',''
                  (concat (map (\<lambda>p. [py_format (py_getitem p 0), py_format (py_getitem p 1)])
                     points))],
               effects_log := effects_log self @ [''compand'']\<rparr>)))
   \<and> fst (compand_default self w) =
       (None, self\<lparr>effects := effects self @
                      [''compand'', ''0.3,0.8'', ''6.0:-70,-70,-60,-20,0,0''],
                   effects_log := effects_log self @ [''compand'']\<rparr>)"
  using compand_ok [of attack_time decay_time soft_knee_db tf_points self w]
    sort_key_strict [of "\<lambda>p. num_val (py_getitem p 0)" tf_points]
    compand_default_ok [of self w]
  by (simp add: Let_def)

theorem compand_tokens_witness:
  "fst (compand (PInt 1) (PInt 2) PNone
          (PList [PTuple [PInt 0, PInt 0], PTuple [PInt (- 70), PInt (- 70)],
                  PTuple [flt (- (121 / 2)), PInt (- 20)]]) fresh quiet) =
     (None, fresh\<lparr>effects := [''compand'', ''1,2'', ''-70,-70,-60.5,-20,0,0''],
                  effects_log := [''compand'']\<rparr>)"
proof -
  let ?ps = "[PTuple [PInt 0, PInt 0], PTuple [PInt (- 70), PInt (- 70)],
              PTuple [flt (- (121 / 2)), PInt (- 20)]]"
  have v: "num_val (flt (- (121 / 2))) = - (121 / 2)"
    by code_simp
  have h: "is_number (PInt 1) \<and> 0 < num_val (PInt 1)
      \<and> is_number (PInt 2) \<and> 0 < num_val (PInt 2)
      \<and> (is_number PNone \<or> PNone = PNone)
      \<and> ?ps \<noteq> []
      \<and> (\<forall>p\<in>set ?ps. \<exists>x y. p = PTuple [x, y] \<and> is_number x \<and> is_number y
              \<and> num_val x \<le> 0 \<and> num_val y \<le> 0)
      \<and> distinct (map (\<lambda>p. num_val (py_getitem p 0)) ?ps)"
    by (simp add: v float_values)
  have t: "[''compand'', py_format (PInt 1) @ '','' @ py_format (PInt 2),
            (if PNone = PNone then [] else py_format PNone @ '':'') @
            str_join '',''
              (concat (map (\<lambda>p. [py_format (py_getitem p 0), py_format (py_getitem p 1)])
                 (sort_key (\<lambda>p. num_val (py_getitem p 0)) ?ps)))] =
           [''compand'', ''1,2'', ''-70,-70,-60.5,-20,0,0'']"
    by code_simp
  note th = compand_tokens [of "PInt 1" "PInt 2" PNone ?ps fresh quiet]
  have "mset (sort_key (\<lambda>p. num_val (py_getitem p 0)) ?ps) = mset ?ps
      \<and> sorted_wrt (<) (map (\<lambda>p. num_val (py_getitem p 0))
            (sort_key (\<lambda>p. num_val (py_getitem p 0)) ?ps))
      \<and> fst (compand (PInt 1) (PInt 2) PNone (PList ?ps) fresh quiet) =
      (None, fresh\<lparr>effects := effects fresh @
           [''compand'', py_format (PInt 1) @ '','' @ py_format (PInt 2),
            (if PNone = PNone then [] else py_format PNone @ '':'') @
            str_join '',''
              (concat (map (\<lambda>p. [py_format (py_getitem p 0), py_format (py_getitem p 1)])
                 (sort_key (\<lambda>p. num_val (py_getitem p 0)) ?ps)))],
         effects_log := effects_log fresh @ [''compand'']\<rparr>)"
    using mp [OF conjunct1 [OF th] h] by (simp only: Let_def)
  then have "fst (compand (PInt 1) (PInt 2) PNone (PList ?ps) fresh quiet) =
      (None, fresh\<lparr>effects := effects fresh @
           [''compand'', py_format (PInt 1) @ '','' @ py_format (PInt 2),
            (if PNone = PNone then [] else py_format PNone @ '':'') @
            str_join '',''
              (concat (map (\<lambda>p. [py_format (py_getitem p 0), py_format (py_getitem p 1)])
                 (sort_key (\<lambda>p. num_val (py_getitem p 0)) ?ps)))],
         effects_log := effects_log fresh @ [''compand'']\<rparr>)"
    by (elim conjE)
  then show ?thesis
    unfolding t by (simp add: fresh_def)
qed


subsection \<open>Growth of the effect tokens\<close>

lemma effects_prefix_simple:
  "prefix (effects self) (effects (snd (set_globals dg g m r v self)))"
  "prefix (effects self) (effects (snd (rate s q self)))"
  "prefix (effects self) (effects (snd (fade i ou sh self)))"
  "prefix (effects self) (effects (snd (gain gd n l b self)))"
  "prefix (effects self) (effects (snd (loudness gd rl self)))"
  "prefix (effects self) (effects (snd (norm_effect db self)))"
  "prefix (effects self) (effects (snd (pad sd ed self)))"
  "prefix (effects self) (effects (snd (trim st en self)))"
  "prefix (effects self) (effects (snd (not_implemented self)))"
  by (simp_all add: set_globals_def rate_def fade_def gain_def loudness_def norm_effect_def
      pad_def trim_def not_implemented_def out_defs Let_def)

lemma effects_prefix_silence:
  "prefix (effects self) (effects (snd (silence lo th du bu self)))"
  by (simp add: silence_def out_defs Let_def)

lemma effects_prefix_convert:
  "prefix (effects self) (effects (snd (convert s c b self)))"
  by (simp add: convert_def rate_def out_defs Let_def)

lemma effects_prefix_compand:
  "prefix (effects self) (effects (snd (fst (compand a d k p self w))))"
  by (simp add: compand_def out_defs Let_def)

lemma effects_prefix_build:
  "prefix (effects self)
     (effects (fst (snd (case build sox self w of
                           (Inl e, self', w') \<Rightarrow> (Some e, self', w')
                         | (Inr x, self', w') \<Rightarrow> (None, self', w')))))"
  by (simp add: build_def Let_def)

lemma effects_prefix_call:
  "prefix (effects self) (effects (fst (snd (apply_call sox c (self, w)))))"
proof (cases c)
  case Build
  then show ?thesis
    using effects_prefix_build [of self sox w] by simp
next
  case (Compand a d k p)
  then show ?thesis
    using effects_prefix_compand [of self a d k p w] by (simp add: split_beta)
next
  case (Convert s ch b)
  then show ?thesis
    using effects_prefix_convert [of self s ch b] by (simp add: split_beta)
next
  case (Silence lo th du bu)
  then show ?thesis
    using effects_prefix_silence [of self lo th du bu] by (simp add: split_beta)
qed (simp_all add: split_beta effects_prefix_simple)

lemma effects_prefix_run:
  "prefix (effects self) (effects (fst (run sox cs (self, w))))"
proof (induction cs arbitrary: self w)
  case Nil
  show ?case by simp
next
  case (Cons c cs)
  obtain e self' w' where step: "apply_call sox c (self, w) = (e, self', w')"
    by (cases "apply_call sox c (self, w)") auto
  have "prefix (effects self) (effects self')"
    using effects_prefix_call [of self sox c w] step by simp
  moreover have "prefix (effects self') (effects (fst (run sox cs (self', w'))))"
    by (rule Cons.IH)
  ultimately have "prefix (effects self) (effects (fst (run sox cs (self', w'))))"
    by (rule prefix_order.trans)
  then show ?case
    using step by simp
qed

text \<open>
  Claim C9. \<open>effects\<close> only grows: after any single method call, with any arguments,
  whether it returns or raises, and after any sequence of such calls, the tokens that
  \<open>effects\<close> held before are a prefix of the tokens it holds afterwards. No call removes,
  replaces or reorders a token appended earlier.
\<close>

theorem effects_monotone:
  "prefix (effects self) (effects (fst (snd (apply_call sox c (self, w)))))
   \<and> prefix (effects self) (effects (fst (run sox cs (self, w))))"
  using effects_prefix_call [of self sox c w] effects_prefix_run [of self sox cs w]
  by simp

theorem effects_monotone_witness:
  "prefix [''norm'', ''-3'']
     (effects (fst (run (\<lambda>args. False)
        [Trim (PInt 3) (PInt 1), Convert PNone (PInt 0) (PInt 16), Build, Not_implemented,
         Gain (PInt 3) (PBool True) (PBool False) PNone]
        (fresh\<lparr>effects := [''norm'', ''-3''], effects_log := [''norm'']\<rparr>, quiet))))
   \<and> effects (fst (run (\<lambda>args. False)
        [Trim (PInt 3) (PInt 1), Convert PNone (PInt 0) (PInt 16), Build, Not_implemented,
         Gain (PInt 3) (PBool True) (PBool False) PNone]
        (fresh\<lparr>effects := [''norm'', ''-3''], effects_log := [''norm'']\<rparr>, quiet))) =
       [''norm'', ''-3'', ''gain'', ''-n'', ''3'']"
proof -
  let ?cs = "[Trim (PInt 3) (PInt 1), Convert PNone (PInt 0) (PInt 16), Build, Not_implemented,
         Gain (PInt 3) (PBool True) (PBool False) PNone]"
  let ?self = "fresh\<lparr>effects := [''norm'', ''-3''], effects_log := [''norm'']\<rparr>"
  have a: "prefix (effects ?self) (effects (fst (run (\<lambda>args. False) ?cs (?self, quiet))))"
    using effects_monotone [of ?self "\<lambda>args. False" Build quiet ?cs] by (rule conjunct2)
  have b: "effects (fst (run (\<lambda>args. False) ?cs (?self, quiet))) =
       [''norm'', ''-3'', ''gain'', ''-n'', ''3'']"
    by code_simp
  show ?thesis
    using a b by simp
qed

subsection \<open>Rejected arguments\<close>

text \<open>
  Every effect other than \<open>convert\<close> checks all its arguments before its first assignment:
  when it raises, it raises \<open>ValueError\<close> (or, in \<open>compand\<close>, \<open>TypeError\<close> for a \<open>tf_points\<close>
  that is not a list) and the object is as it was.
\<close>

lemma failure_atomic:
  "fst (rate s q self) \<noteq> None \<Longrightarrow> rate s q self = (Some ValueError, self)"
  "fst (fade i ou sh self) \<noteq> None \<Longrightarrow> fade i ou sh self = (Some ValueError, self)"
  "fst (gain gd n l b self) \<noteq> None \<Longrightarrow> gain gd n l b self = (Some ValueError, self)"
  "fst (loudness gd rl self) \<noteq> None \<Longrightarrow> loudness gd rl self = (Some ValueError, self)"
  "fst (norm_effect db self) \<noteq> None \<Longrightarrow> norm_effect db self = (Some ValueError, self)"
  "fst (pad sd ed self) \<noteq> None \<Longrightarrow> pad sd ed self = (Some ValueError, self)"
  "fst (silence lo th du bu self) \<noteq> None \<Longrightarrow>
     silence lo th du bu self = (Some ValueError, self)"
  "fst (trim st en self) \<noteq> None \<Longrightarrow> trim st en self = (Some ValueError, self)"
  by (simp_all add: rate_def fade_def gain_def loudness_def norm_effect_def
      pad_def silence_def trim_def out_defs Let_def split: if_splits)

lemma compand_failure_atomic:
  "fst (fst (compand a d k p self w)) \<noteq> None \<Longrightarrow>
     fst (compand a d k p self w) = (Some ValueError, self)
     \<or> fst (compand a d k p self w) = (Some TypeError, self)"
  by (simp add: compand_def out_defs Let_def split: if_splits)

text \<open>
  Claim C1 says that every effect call whose arguments fail validation raises and leaves
  \<open>effects\<close>, \<open>effects_log\<close>, \<open>input_format\<close> and \<open>output_format\<close> as they were, and in
  particular that a \<open>convert\<close> call with a valid bit depth and an invalid \<open>channels\<close> or
  \<open>samplerate\<close> appends no token. \<open>convert\<close> does not behave so. On the example object,
  whose \<open>output_format\<close> is empty, \<open>convert(channels=0, bitdepth=16)\<close> and
  \<open>convert(samplerate=0, bitdepth=16)\<close> raise \<open>ValueError\<close> after \<open>-b\<close>, \<open>16\<close> has been appended
  to \<open>output_format\<close>, and \<open>convert(samplerate=0, channels=2)\<close> raises it after \<open>-c\<close>, \<open>2\<close> has
  been appended.
\<close>

theorem convert_failure_keeps_tokens:
  "convert PNone (PInt 0) (PInt 16) fresh =
     (Some ValueError, fresh\<lparr>output_format := [''-b'', ''16'']\<rparr>)
   \<and> convert (PInt 0) PNone (PInt 16) fresh =
     (Some ValueError, fresh\<lparr>output_format := [''-b'', ''16'']\<rparr>)
   \<and> convert (PInt 0) (PInt 2) PNone fresh =
     (Some ValueError, fresh\<lparr>output_format := [''-c'', ''2'']\<rparr>)
   \<and> output_format fresh = []"
  by code_simp


theorem convert_failure_keeps_tokens_witness:
  "fst (convert PNone (PInt 0) (PInt 16) fresh) = Some ValueError
   \<and> output_format (snd (convert PNone (PInt 0) (PInt 16) fresh)) = [''-b'', ''16'']
   \<and> output_format (snd (convert PNone (PInt 0) (PInt 16) fresh)) \<noteq> output_format fresh"
  using convert_failure_keeps_tokens by simp

end
